theory Spec2Isabelle
  imports Complex_Main "HOL-Library.Multiset"
begin

section \<open>Data model\<close>

text \<open>
  The analytics service of the session tracker
  (\<^verbatim>\<open>server/src/services/analytics.services.js\<close>) reads the session collection,
  asks a text-generation service for an insight and writes four fields of the user's
  profile. Ratings are JavaScript numbers; they are modelled as exact rationals, so sums
  and means carry no rounding. Timestamps are milliseconds; \<open>getHours\<close> (the local hour
  of a \<^verbatim>\<open>Date\<close>) belongs to the runtime and is a parameter of the model.
\<close>

type_synonym userId = string

record interval =
  startTime :: int
  endTime :: int

record session =
  userId :: userId
  status :: string
  rating :: "rat option"
  tags :: "string list"
  intervals :: "interval list"

text \<open>What \<^verbatim>\<open>.select("rating intervals")\<close> keeps of a session whose rating exists.\<close>

record ratedSession =
  rating_r :: rat
  intervals_r :: "interval list"

text \<open>One output document of the aggregation pipeline: \<^verbatim>\<open>{_id, avgRating, count}\<close>.\<close>

record tagStat =
  id_t :: string
  avgRating :: rat
  count_t :: nat

record blockAcc =
  totalRating :: rat
  count_b :: nat

record tagResult =
  topPerformingTags :: "string list"
  improvementAreaTags :: "string list"

datatype error = TypeError | DataAccessError | CollaboratorError | PersistenceError

datatype bson = BString string | BStrings "string list" | BNumber rat | BBool bool

datatype logEntry = Log string | LogError string error

text \<open>
  A user document is a finite map from dotted field paths to values, so that a
  \<^verbatim>\<open>$set\<close> on \<^verbatim>\<open>"aiInsights.habitAnalysis"\<close> is an update at that path.
\<close>

type_synonym document = "string \<rightharpoonup> bson"

record world =
  sessions :: "session list"
  users :: "userId \<rightharpoonup> document"
  console :: "logEntry list"

text \<open>
  The collaborators. A fault, when present, is the exception the call throws
  (for \<open>aggregateFault\<close> this includes the \<^verbatim>\<open>ObjectId\<close> constructor rejecting the
  identifier). \<open>groupOrder\<close> is the order in which the database emits the groups of
  \<^verbatim>\<open>$group\<close>: the pipeline fixes none, so it is the engine's choice.
\<close>

record env =
  aggregateFault :: "error option"
  groupOrder :: "tagStat list \<Rightarrow> tagStat list"
  findFault :: "error option"
  getHours :: "int \<Rightarrow> int"
  generateContent :: "string \<Rightarrow> error + string"
  updateFault :: "error option"

section \<open>Asynchronous steps: state passing with exceptions\<close>

type_synonym 'a io = "world \<Rightarrow> (error + 'a) \<times> world"

definition returnIO :: "'a \<Rightarrow> 'a io" where
  "returnIO a = (\<lambda>w. (Inr a, w))"

definition bindIO :: "'a io \<Rightarrow> ('a \<Rightarrow> 'b io) \<Rightarrow> 'b io" where
  "bindIO m f = (\<lambda>w. case m w of (Inl e, w') \<Rightarrow> (Inl e, w') | (Inr a, w') \<Rightarrow> f a w')"

definition tryCatch :: "'a io \<Rightarrow> (error \<Rightarrow> 'a io) \<Rightarrow> 'a io" where
  "tryCatch m h = (\<lambda>w. case m w of (Inl e, w') \<Rightarrow> h e w' | (Inr a, w') \<Rightarrow> (Inr a, w'))"

definition liftE :: "error + 'a \<Rightarrow> 'a io" where
  "liftE r = (\<lambda>w. (r, w))"

definition console_log :: "string \<Rightarrow> unit io" where
  "console_log msg = (\<lambda>w. (Inr (), w\<lparr>console := console w @ [Log msg]\<rparr>))"

definition console_error :: "string \<Rightarrow> error \<Rightarrow> unit io" where
  "console_error msg e = (\<lambda>w. (Inr (), w\<lparr>console := console w @ [LogError msg e]\<rparr>))"

section \<open>The session store\<close>

text \<open>The filter of both queries: this user, completed, rating present.\<close>

definition eligible :: "userId \<Rightarrow> session \<Rightarrow> bool" where
  "eligible uid s = (userId s = uid \<and> status s = ''completed'' \<and> rating s \<noteq> None)"

definition selectRatingIntervals :: "session \<Rightarrow> ratedSession list" where
  "selectRatingIntervals s =
     (case rating s of None \<Rightarrow> [] | Some r \<Rightarrow> [\<lparr>rating_r = r, intervals_r = intervals s\<rparr>])"

definition eligibleSessions :: "userId \<Rightarrow> session list \<Rightarrow> ratedSession list" where
  "eligibleSessions uid ss = concat (map selectRatingIntervals (filter (eligible uid) ss))"

definition Session_find :: "env \<Rightarrow> userId \<Rightarrow> ratedSession list io" where
  "Session_find en uid =
     (\<lambda>w. case findFault en of
        Some e \<Rightarrow> (Inl e, w)
      | None \<Rightarrow> (Inr (eligibleSessions uid (sessions w)), w))"

section \<open>analyzePeakTime\<close>

definition timeBlockRatings0 :: "(string \<times> blockAcc) list" where
  "timeBlockRatings0 =
     [(''Morning (6am-12pm)'', \<lparr>totalRating = 0, count_b = 0\<rparr>),
      (''Afternoon (12pm-5pm)'', \<lparr>totalRating = 0, count_b = 0\<rparr>),
      (''Evening (5pm-10pm)'', \<lparr>totalRating = 0, count_b = 0\<rparr>),
      (''Night (10pm-6am)'', \<lparr>totalRating = 0, count_b = 0\<rparr>)]"

text \<open>
  The cascade of lines 49-52. An invalid date has no hour (NaN): every comparison is
  false and the block stays Night, as for any hour outside the three ranges.
\<close>

definition timeBlockOf :: "int \<Rightarrow> string" where
  "timeBlockOf startHour =
     (if startHour \<ge> 6 \<and> startHour < 12 then ''Morning (6am-12pm)''
      else if startHour \<ge> 12 \<and> startHour < 17 then ''Afternoon (12pm-5pm)''
      else if startHour \<ge> 17 \<and> startHour < 22 then ''Evening (5pm-10pm)''
      else ''Night (10pm-6am)'')"

text \<open>
  Lines 54-55: \<^verbatim>\<open>timeBlockRatings[block].totalRating += rating; .count++\<close>. The key is
  always one of the four present ones.
\<close>

definition addRating :: "string \<Rightarrow> rat \<Rightarrow> (string \<times> blockAcc) list \<Rightarrow> (string \<times> blockAcc) list" where
  "addRating block r tbr =
     map (\<lambda>(k, a). if k = block
                    then (k, a\<lparr>totalRating := totalRating a + r, count_b := count_b a + 1\<rparr>)
                    else (k, a)) tbr"

text \<open>
  The \<^verbatim>\<open>forEach\<close> of lines 47-56. \<^verbatim>\<open>session.intervals[0]\<close> is \<^verbatim>\<open>undefined\<close> on an
  empty array, and reading \<^verbatim>\<open>.startTime\<close> of it throws a TypeError.
\<close>

fun forEachSession :: "(int \<Rightarrow> int) \<Rightarrow> (string \<times> blockAcc) list \<Rightarrow> ratedSession list
                        \<Rightarrow> error + (string \<times> blockAcc) list" where
  "forEachSession gh tbr [] = Inr tbr"
| "forEachSession gh tbr (s # ss) =
     (case intervals_r s of
        [] \<Rightarrow> Inl TypeError
      | iv # _ \<Rightarrow> forEachSession gh (addRating (timeBlockOf (gh (startTime iv))) (rating_r s) tbr) ss)"

text \<open>
  The \<^verbatim>\<open>for ... in\<close> loop of lines 61-69 over the keys in insertion order; the state is
  \<open>(peakProductivityTime, maxAvg)\<close>.
\<close>

fun peakLoop :: "(string \<times> blockAcc) list \<Rightarrow> string \<times> rat \<Rightarrow> string \<times> rat" where
  "peakLoop [] st = st"
| "peakLoop ((block, a) # rest) (peakProductivityTime, maxAvg) =
     (if count_b a > 0
      then (let avg = totalRating a / of_nat (count_b a)
            in if avg > maxAvg then peakLoop rest (block, avg)
               else peakLoop rest (peakProductivityTime, maxAvg))
      else peakLoop rest (peakProductivityTime, maxAvg))"

definition analyzePeakTime :: "env \<Rightarrow> userId \<Rightarrow> string io" where
  "analyzePeakTime en uid =
     bindIO (Session_find en uid) (\<lambda>sessions.
     bindIO (liftE (forEachSession (getHours en) timeBlockRatings0 sessions)) (\<lambda>timeBlockRatings.
     returnIO (fst (peakLoop timeBlockRatings (''Not enough data'', 0)))))"

section \<open>analyzeTagPerformance\<close>

text \<open>The stages of the pipeline of lines 11-23, each a function on the document stream.\<close>

definition matchEligible :: "userId \<Rightarrow> session list \<Rightarrow> session list" where
  "matchEligible uid ss = filter (eligible uid) ss"

text \<open>\<^verbatim>\<open>$unwind\<close>: one document per tag of a session; a session without tags gives none.\<close>

definition unwindTags :: "session list \<Rightarrow> (string \<times> rat) list" where
  "unwindTags ss =
     concat (map (\<lambda>s. case rating s of None \<Rightarrow> [] | Some r \<Rightarrow> map (\<lambda>t. (t, r)) (tags s)) ss)"

definition ratingsOf :: "string \<Rightarrow> (string \<times> rat) list \<Rightarrow> rat list" where
  "ratingsOf t docs = map snd (filter (\<lambda>d. fst d = t) docs)"

definition groupOf :: "(string \<times> rat) list \<Rightarrow> string \<Rightarrow> tagStat" where
  "groupOf docs t =
     \<lparr>id_t = t,
      avgRating = sum_list (ratingsOf t docs) / of_nat (length (ratingsOf t docs)),
      count_t = length (ratingsOf t docs)\<rparr>"

text \<open>\<^verbatim>\<open>$group\<close>: one group per distinct tag, emitted in the engine's order.\<close>

definition groupByTag :: "(tagStat list \<Rightarrow> tagStat list) \<Rightarrow> (string \<times> rat) list \<Rightarrow> tagStat list" where
  "groupByTag order docs = order (map (groupOf docs) (remdups (map fst docs)))"

text \<open>
  \<^verbatim>\<open>$sort: {avgRating: -1}\<close>: descending by mean and by nothing else. The sort keeps
  the incoming order of equal means; with the order of the groups left to the engine,
  this covers every order a sort on this key alone may return.
\<close>

definition sortByAvgDesc :: "tagStat list \<Rightarrow> tagStat list" where
  "sortByAvgDesc gs = sort_key (\<lambda>g. - avgRating g) gs"

definition matchCount :: "tagStat list \<Rightarrow> tagStat list" where
  "matchCount gs = filter (\<lambda>g. count_t g > 2) gs"

definition pipeline :: "(tagStat list \<Rightarrow> tagStat list) \<Rightarrow> userId \<Rightarrow> session list \<Rightarrow> tagStat list" where
  "pipeline order uid ss =
     matchCount (sortByAvgDesc (groupByTag order (unwindTags (matchEligible uid ss))))"

definition Session_aggregate :: "env \<Rightarrow> userId \<Rightarrow> tagStat list io" where
  "Session_aggregate en uid =
     (\<lambda>w. case aggregateFault en of
        Some e \<Rightarrow> (Inl e, w)
      | None \<Rightarrow> (Inr (pipeline (groupOrder en) uid (sessions w)), w))"

text \<open>
  \<^verbatim>\<open>Array.prototype.slice(start, end)\<close>: a negative index counts from the end, both are
  clamped to the array, and a missing \<^verbatim>\<open>end\<close> is the length.
\<close>

definition relIndex :: "int \<Rightarrow> int \<Rightarrow> int" where
  "relIndex len i = (if i < 0 then max (len + i) 0 else min i len)"

definition slice :: "int \<Rightarrow> int option \<Rightarrow> 'a list \<Rightarrow> 'a list" where
  "slice start end xs =
     (let len = int (length xs);
          k = relIndex len start;
          final = (case end of None \<Rightarrow> len | Some e \<Rightarrow> relIndex len e)
      in take (nat (final - k)) (drop (nat k) xs))"

definition analyzeTagPerformance :: "env \<Rightarrow> userId \<Rightarrow> tagResult io" where
  "analyzeTagPerformance en uid =
     bindIO (Session_aggregate en uid) (\<lambda>performance.
     returnIO \<lparr>topPerformingTags = map id_t (slice 0 (Some 3) performance),
               improvementAreaTags = rev (map id_t (slice (- 3) None performance))\<rparr>)"

section \<open>runAllAnalysesForUser\<close>

fun join :: "string \<Rightarrow> string list \<Rightarrow> string" where
  "join sep [] = []"
| "join sep [x] = x"
| "join sep (x # y # ys) = x @ sep @ join sep (y # ys)"

text \<open>\<^verbatim>\<open>list.join(', ') || 'None yet'\<close>: the empty string is falsy.\<close>

definition joinOrNone :: "string list \<Rightarrow> string" where
  "joinOrNone xs = (if join '', '' xs = [] then ''None yet'' else join '', '' xs)"

definition nl :: string where
  "nl = [CHR 0x0A]"

definition indent :: string where
  "indent = replicate 12 CHR '' ''"

definition quote :: string where
  "quote = [CHR 0x27]"

definition prompt :: "string list \<Rightarrow> string list \<Rightarrow> string \<Rightarrow> string" where
  "prompt topPerforming improvementArea peakProductivityTime =
     nl @ indent @ ''You are a friendly and encouraging productivity coach. Based on the following user data, provide a short, actionable insight (2-3 sentences).''
     @ nl @ indent
     @ nl @ indent @ ''Data:''
     @ nl @ indent @ ''- User'' @ quote @ ''s best performing task types (highest rated): '' @ joinOrNone topPerforming
     @ nl @ indent @ ''- Task types the user finds challenging (lowest rated): '' @ joinOrNone improvementArea
     @ nl @ indent @ ''- The user'' @ quote @ ''s most productive time of day (highest rated sessions): '' @ peakProductivityTime
     @ nl
     @ nl @ indent @ ''Analyze this data and give the user one key insight. For example, if they do well on '' @ quote @ ''Coding'' @ quote @ '' in the morning, encourage that. If they struggle with '' @ quote @ ''Meetings'' @ quote @ '' in the afternoon, suggest a different approach. Be positive and helpful.''
     @ nl @ replicate 8 CHR '' ''"

text \<open>The \<^verbatim>\<open>$set\<close> document of lines 106-111.\<close>

definition insightsUpdate :: "string list \<Rightarrow> string list \<Rightarrow> string \<Rightarrow> string \<Rightarrow> (string \<times> bson) list" where
  "insightsUpdate topPerforming improvementArea peakProductivityTime habitAnalysis =
     [(''aiInsights.topPerformingTags'', BStrings topPerforming),
      (''aiInsights.improvementAreaTags'', BStrings improvementArea),
      (''aiInsights.peakProductivityTime'', BString peakProductivityTime),
      (''aiInsights.habitAnalysis'', BString habitAnalysis)]"

fun applySet :: "(string \<times> bson) list \<Rightarrow> document \<Rightarrow> document" where
  "applySet [] d = d"
| "applySet ((path, v) # rest) d = applySet rest (d(path \<mapsto> v))"

text \<open>
  \<^verbatim>\<open>User.findByIdAndUpdate(id, {$set: ...})\<close>: the document with this identifier gets the
  paths set; when there is none, nothing is written and nothing is thrown (no upsert).
  A write that throws leaves the store as it was.
\<close>

definition User_findByIdAndUpdate :: "env \<Rightarrow> userId \<Rightarrow> (string \<times> bson) list \<Rightarrow> unit io" where
  "User_findByIdAndUpdate en uid setDoc =
     (\<lambda>w. case updateFault en of
        Some e \<Rightarrow> (Inl e, w)
      | None \<Rightarrow>
          (case users w uid of
             None \<Rightarrow> (Inr (), w)
           | Some d \<Rightarrow> (Inr (), w\<lparr>users := (users w)(uid \<mapsto> applySet setDoc d)\<rparr>)))"

text \<open>The body of the \<^verbatim>\<open>try\<close> of lines 79-114.\<close>

definition tryBlock :: "env \<Rightarrow> userId \<Rightarrow> unit io" where
  "tryBlock en uid =
     bindIO (analyzeTagPerformance en uid) (\<lambda>tp.
     bindIO (analyzePeakTime en uid) (\<lambda>peakProductivityTime.
     bindIO (liftE (generateContent en
               (prompt (topPerformingTags tp) (improvementAreaTags tp) peakProductivityTime)))
       (\<lambda>habitAnalysis.
     bindIO (User_findByIdAndUpdate en uid
               (insightsUpdate (topPerformingTags tp) (improvementAreaTags tp)
                  peakProductivityTime habitAnalysis)) (\<lambda>_.
     console_log (''Successfully ran GEN AI analysis for user '' @ uid)))))"

definition errorMessage :: "userId \<Rightarrow> string" where
  "errorMessage uid = ''Error running GEN AI analysis for user '' @ uid @ '':''"

definition runAllAnalysesForUser :: "env \<Rightarrow> userId \<Rightarrow> unit io" where
  "runAllAnalysesForUser en uid =
     tryCatch (tryBlock en uid) (\<lambda>error. console_error (errorMessage uid) error)"

section \<open>Quantities the statements are about\<close>

text \<open>
  The four labels in the enumeration order of the accumulator object, and, for a list of
  eligible sessions, the number, the sum and the mean of the ratings of the sessions whose
  first interval starts in a block.
\<close>

definition inBlock :: "(int \<Rightarrow> int) \<Rightarrow> string \<Rightarrow> ratedSession \<Rightarrow> bool" where
  "inBlock gh b s =
     (case intervals_r s of [] \<Rightarrow> False | iv # _ \<Rightarrow> timeBlockOf (gh (startTime iv)) = b)"

definition blockCount :: "(int \<Rightarrow> int) \<Rightarrow> ratedSession list \<Rightarrow> string \<Rightarrow> nat" where
  "blockCount gh ss b = length (filter (inBlock gh b) ss)"

definition blockTotal :: "(int \<Rightarrow> int) \<Rightarrow> ratedSession list \<Rightarrow> string \<Rightarrow> rat" where
  "blockTotal gh ss b = sum_list (map rating_r (filter (inBlock gh b) ss))"


definition blockLabels :: "string list" where
  "blockLabels = [''Morning (6am-12pm)'', ''Afternoon (12pm-5pm)'', ''Evening (5pm-10pm)'', ''Night (10pm-6am)'']"


definition tally :: "(int \<Rightarrow> int) \<Rightarrow> ratedSession list \<Rightarrow> string \<times> blockAcc \<Rightarrow> string \<times> blockAcc" where
  "tally gh ss = (\<lambda>(k, a). (k, a\<lparr>totalRating := totalRating a + blockTotal gh ss k,
                                   count_b := count_b a + blockCount gh ss k\<rparr>))"




text \<open>The four paths of the profile that hold the insights.\<close>

definition insightPaths :: "string list" where
  "insightPaths = [''aiInsights.topPerformingTags'', ''aiInsights.improvementAreaTags'',
                   ''aiInsights.peakProductivityTime'', ''aiInsights.habitAnalysis'']"

text \<open>
  For a tag: the number of times eligible sessions carry it (a session counts once per
  occurrence in its \<open>tags\<close>), the sum and the mean of the ratings over these
  occurrences, and the list of the tags that pass the floor of more than two samples.
\<close>

definition ratingOr0 :: "session \<Rightarrow> rat" where
  "ratingOr0 s = (case rating s of None \<Rightarrow> 0 | Some r \<Rightarrow> r)"

definition sampleCount :: "userId \<Rightarrow> session list \<Rightarrow> string \<Rightarrow> nat" where
  "sampleCount uid ss t = sum_list (map (\<lambda>s. count_list (tags s) t) (filter (eligible uid) ss))"

definition tagTotal :: "userId \<Rightarrow> session list \<Rightarrow> string \<Rightarrow> rat" where
  "tagTotal uid ss t =
     sum_list (map (\<lambda>s. of_nat (count_list (tags s) t) * ratingOr0 s) (filter (eligible uid) ss))"

definition tagMean :: "userId \<Rightarrow> session list \<Rightarrow> string \<Rightarrow> rat" where
  "tagMean uid ss t = tagTotal uid ss t / of_nat (sampleCount uid ss t)"

definition qualifyingTags :: "userId \<Rightarrow> session list \<Rightarrow> string list" where
  "qualifyingTags uid ss =
     filter (\<lambda>t. sampleCount uid ss t > 2) (remdups (concat (map tags (filter (eligible uid) ss))))"

definition statOf :: "userId \<Rightarrow> session list \<Rightarrow> string \<Rightarrow> tagStat" where
  "statOf uid ss t = \<lparr>id_t = t, avgRating = tagMean uid ss t, count_t = sampleCount uid ss t\<rparr>"

text \<open>What is assumed of the database: it emits every group of \<^verbatim>\<open>$group\<close> once, in some order.\<close>

definition permutes :: "(tagStat list \<Rightarrow> tagStat list) \<Rightarrow> bool" where
  "permutes order = (\<forall>gs. mset (order gs) = mset gs)"

section \<open>Example inputs\<close>

definition utcHours :: "int \<Rightarrow> int" where
  "utcHours t = (t div 3600000) mod 24"

definition en0 :: env where
  "en0 = \<lparr>aggregateFault = None, groupOrder = (\<lambda>gs. gs), findFault = None, getHours = utcHours,
           generateContent = (\<lambda>p. Inr ''Keep it up.''), updateFault = None\<rparr>"

definition sessionAt :: "rat \<Rightarrow> string list \<Rightarrow> int \<Rightarrow> session" where
  "sessionAt r ts h =
     \<lparr>userId = ''u'', status = ''completed'', rating = Some r, tags = ts,
      intervals = [\<lparr>startTime = h * 3600000, endTime = h * 3600000 + 1500000\<rparr>]\<rparr>"



definition wNoInterval :: world where
  "wNoInterval = \<lparr>sessions = [(sessionAt 4 [''coding''] 8)\<lparr>intervals := []\<rparr>], users = Map.empty, console = []\<rparr>"

definition wScenario :: world where
  "wScenario = \<lparr>sessions = [sessionAt 5 [''coding''] 8, sessionAt 5 [''coding''] 9,
        sessionAt 3 [''coding''] 14, sessionAt 1 [''meetings''] 20], users = Map.empty, console = []\<rparr>"


definition enCollabDown :: env where
  "enCollabDown = en0\<lparr>generateContent := (\<lambda>p. Inl CollaboratorError)\<rparr>"

definition priorDoc :: document where
  "priorDoc = [''name'' \<mapsto> BString ''Ada'', ''aiInsights.habitAnalysis'' \<mapsto> BString ''old'']"

definition wProfile :: world where
  "wProfile = wScenario\<lparr>users := [''u'' \<mapsto> priorDoc]\<rparr>"


definition wTwoTags :: world where
  "wTwoTags = \<lparr>sessions = [sessionAt 5 [''coding''] 8, sessionAt 2 [''meetings''] 9,
        sessionAt 4 [''coding''] 14, sessionAt 3 [''meetings''] 15, sessionAt 5 [''coding'', ''reading''] 20,
        sessionAt 2 [''meetings''] 21], users = Map.empty, console = []\<rparr>"


section \<open>analyzePeakTime: the accumulation and the selection\<close>

lemma forEachSession_tally:
  "\<forall>s \<in> set ss. intervals_r s \<noteq> [] \<Longrightarrow> forEachSession gh tbr ss = Inr (map (tally gh ss) tbr)"
proof (induction ss arbitrary: tbr)
  case Nil
  show ?case by (simp add: tally_def blockTotal_def blockCount_def split_def)
next
  case (Cons s ss)
  from Cons.prems obtain iv rest where iv: "intervals_r s = iv # rest"
    by (cases "intervals_r s") auto
  have step: "map (tally gh ss) (addRating (timeBlockOf (gh (startTime iv))) (rating_r s) tbr)
            = map (tally gh (s # ss)) tbr"
    by (auto simp: tally_def addRating_def blockTotal_def blockCount_def inBlock_def iv)
  from Cons show ?case by (simp add: iv step)
qed

lemma forEachSession_raises:
  "\<exists>s \<in> set ss. intervals_r s = [] \<Longrightarrow> forEachSession gh tbr ss = Inl TypeError"
  by (induction ss arbitrary: tbr) (auto split: list.splits)


lemma map_tally_tbr0:
  "map (tally gh ss) timeBlockRatings0
     = map (\<lambda>b. (b, \<lparr>totalRating = blockTotal gh ss b, count_b = blockCount gh ss b\<rparr>)) blockLabels"
  by (simp add: tally_def timeBlockRatings0_def blockLabels_def)

lemma analyzePeakTime_returns:
  assumes "findFault en = None"
    and "\<forall>s \<in> set (eligibleSessions uid (sessions w)). intervals_r s \<noteq> []"
  shows "analyzePeakTime en uid w =
           (Inr (fst (peakLoop (map (\<lambda>b. (b, \<lparr>totalRating = blockTotal (getHours en) (eligibleSessions uid (sessions w)) b,
                                   count_b = blockCount (getHours en) (eligibleSessions uid (sessions w)) b\<rparr>)) blockLabels)
                        (''Not enough data'', 0))), w)"
  using assms
  by (simp add: analyzePeakTime_def bindIO_def Session_find_def liftE_def returnIO_def
        forEachSession_tally map_tally_tbr0)







lemma eligibleSessions_empty_intervals:
  "(\<exists>r \<in> set (eligibleSessions uid ss). intervals_r r = [])
     \<longleftrightarrow> (\<exists>s \<in> set ss. eligible uid s \<and> intervals s = [])"
  by (auto simp: eligibleSessions_def selectRatingIntervals_def eligible_def split: option.splits)

section \<open>Claims about the peak time\<close>








text \<open>
  C10: \<open>analyzePeakTime\<close> reads \<open>intervals[0].startTime\<close> unguarded. With the query
  itself succeeding, it returns a result exactly when every eligible session has at least
  one interval, and throws a TypeError exactly when some eligible session has none.
\<close>

theorem empty_intervals_raise:
  assumes "findFault en = None"
  shows "(fst (analyzePeakTime en uid w) = Inl TypeError
            \<longleftrightarrow> (\<exists>s \<in> set (sessions w). eligible uid s \<and> intervals s = []))
       \<and> ((\<exists>r. fst (analyzePeakTime en uid w) = Inr r)
            \<longleftrightarrow> (\<forall>s \<in> set (sessions w). eligible uid s \<longrightarrow> intervals s \<noteq> []))"
proof (cases "\<exists>s \<in> set (sessions w). eligible uid s \<and> intervals s = []")
  case True
  then have "\<exists>r \<in> set (eligibleSessions uid (sessions w)). intervals_r r = []"
    by (simp add: eligibleSessions_empty_intervals)
  then have "forEachSession (getHours en) timeBlockRatings0 (eligibleSessions uid (sessions w)) = Inl TypeError"
    by (rule forEachSession_raises)
  then have "fst (analyzePeakTime en uid w) = Inl TypeError"
    using assms by (simp add: analyzePeakTime_def bindIO_def Session_find_def liftE_def)
  with True show ?thesis by auto
next
  case False
  then have "\<forall>r \<in> set (eligibleSessions uid (sessions w)). intervals_r r \<noteq> []"
    using eligibleSessions_empty_intervals[of uid "sessions w"] by blast
  from analyzePeakTime_returns[OF assms this] obtain r where "fst (analyzePeakTime en uid w) = Inr r"
    by simp
  with False show ?thesis by auto
qed

theorem empty_intervals_raise_witness:
  "fst (analyzePeakTime en0 ''u'' wNoInterval) = Inl TypeError
   \<and> (\<exists>s \<in> set (sessions wNoInterval). eligible ''u'' s \<and> intervals s = [])"
proof -
  have a: "findFault en0 = None" by (simp add: en0_def)
  have b: "\<exists>s \<in> set (sessions wNoInterval). eligible ''u'' s \<and> intervals s = []"
    by (simp add: wNoInterval_def sessionAt_def eligible_def)
  from empty_intervals_raise[OF a, of "''u''" wNoInterval] b show ?thesis by blast
qed

section \<open>runAllAnalysesForUser: the steps and the handler\<close>

lemma analyzeTagPerformance_world: "snd (analyzeTagPerformance en uid w) = w"
  by (simp add: analyzeTagPerformance_def bindIO_def Session_aggregate_def returnIO_def split: option.splits)

lemma analyzePeakTime_world: "snd (analyzePeakTime en uid w) = w"
  by (simp add: analyzePeakTime_def bindIO_def Session_find_def returnIO_def liftE_def
      split: option.splits sum.splits)

lemma analyzeTagPerformance_users:
  "fst (analyzeTagPerformance en uid (w\<lparr>users := us\<rparr>)) = fst (analyzeTagPerformance en uid w)"
  by (simp add: analyzeTagPerformance_def bindIO_def Session_aggregate_def returnIO_def split: option.splits)

lemma analyzePeakTime_users:
  "fst (analyzePeakTime en uid (w\<lparr>users := us\<rparr>)) = fst (analyzePeakTime en uid w)"
  by (simp add: analyzePeakTime_def bindIO_def Session_find_def returnIO_def liftE_def
      split: option.splits sum.splits)

lemma bindIO_Inl: "fst (m w) = Inl e \<Longrightarrow> bindIO m f w = (Inl e, snd (m w))"
  by (cases "m w") (simp add: bindIO_def)

lemma bindIO_Inr: "fst (m w) = Inr a \<Longrightarrow> bindIO m f w = f a (snd (m w))"
  by (cases "m w") (simp add: bindIO_def)

lemma tryBlock_tags_fail:
  "fst (analyzeTagPerformance en uid w) = Inl e \<Longrightarrow> tryBlock en uid w = (Inl e, w)"
  by (simp add: tryBlock_def bindIO_Inl analyzeTagPerformance_world)

lemma tryBlock_peak_fail:
  "fst (analyzeTagPerformance en uid w) = Inr tp \<Longrightarrow> fst (analyzePeakTime en uid w) = Inl e
     \<Longrightarrow> tryBlock en uid w = (Inl e, w)"
  by (simp add: tryBlock_def bindIO_Inl bindIO_Inr analyzeTagPerformance_world analyzePeakTime_world)

lemma tryBlock_generate_fail:
  "fst (analyzeTagPerformance en uid w) = Inr tp \<Longrightarrow> fst (analyzePeakTime en uid w) = Inr pk
     \<Longrightarrow> generateContent en (prompt (topPerformingTags tp) (improvementAreaTags tp) pk) = Inl e
     \<Longrightarrow> tryBlock en uid w = (Inl e, w)"
  by (simp add: tryBlock_def bindIO_Inl bindIO_Inr analyzeTagPerformance_world analyzePeakTime_world
        liftE_def)

lemma tryBlock_update_fail:
  "fst (analyzeTagPerformance en uid w) = Inr tp \<Longrightarrow> fst (analyzePeakTime en uid w) = Inr pk
     \<Longrightarrow> generateContent en (prompt (topPerformingTags tp) (improvementAreaTags tp) pk) = Inr h
     \<Longrightarrow> updateFault en = Some e
     \<Longrightarrow> tryBlock en uid w = (Inl e, w)"
  by (simp add: tryBlock_def bindIO_Inl bindIO_Inr analyzeTagPerformance_world analyzePeakTime_world
        liftE_def User_findByIdAndUpdate_def)

lemma tryBlock_success:
  "fst (analyzeTagPerformance en uid w) = Inr tp \<Longrightarrow> fst (analyzePeakTime en uid w) = Inr pk
     \<Longrightarrow> generateContent en (prompt (topPerformingTags tp) (improvementAreaTags tp) pk) = Inr h
     \<Longrightarrow> updateFault en = None
     \<Longrightarrow> tryBlock en uid w =
          (Inr (), (case users w uid of None \<Rightarrow> w
                    | Some d \<Rightarrow> w\<lparr>users := (users w)(uid \<mapsto>
                         applySet (insightsUpdate (topPerformingTags tp) (improvementAreaTags tp) pk h) d)\<rparr>)
                   \<lparr>console := console w @ [Log (''Successfully ran GEN AI analysis for user '' @ uid)]\<rparr>)"
  by (simp add: tryBlock_def bindIO_Inl bindIO_Inr analyzeTagPerformance_world analyzePeakTime_world
        liftE_def User_findByIdAndUpdate_def console_log_def split: option.splits)

lemma tryBlock_failure_world: "fst (tryBlock en uid w) = Inl e \<Longrightarrow> snd (tryBlock en uid w) = w"
proof -
  assume f: "fst (tryBlock en uid w) = Inl e"
  show ?thesis
  proof (cases "fst (analyzeTagPerformance en uid w)")
    case (Inl e1)
    then show ?thesis by (simp add: tryBlock_tags_fail)
  next
    case (Inr tp)
    note tp = this
    show ?thesis
    proof (cases "fst (analyzePeakTime en uid w)")
      case (Inl e2)
      with tp show ?thesis by (simp add: tryBlock_peak_fail)
    next
      case (Inr pk)
      note pk = this
      show ?thesis
      proof (cases "generateContent en (prompt (topPerformingTags tp) (improvementAreaTags tp) pk)")
        case (Inl e3)
        with tp pk show ?thesis by (simp add: tryBlock_generate_fail)
      next
        case (Inr h)
        note h = this
        show ?thesis
        proof (cases "updateFault en")
          case None
          from tryBlock_success[OF tp pk h None] f show ?thesis by simp
        next
          case (Some e4)
          from tryBlock_update_fail[OF tp pk h Some] show ?thesis by simp
        qed
      qed
    qed
  qed
qed

lemma run_result: "fst (runAllAnalysesForUser en uid w) = Inr ()"
  by (cases "tryBlock en uid w")
     (auto simp: runAllAnalysesForUser_def tryCatch_def console_error_def split: sum.splits)

lemma run_on_failure:
  assumes "fst (tryBlock en uid w) = Inl e"
  shows "runAllAnalysesForUser en uid w
           = (Inr (), w\<lparr>console := console w @ [LogError (errorMessage uid) e]\<rparr>)"
proof -
  from assms tryBlock_failure_world[OF assms] have "tryBlock en uid w = (Inl e, w)"
    by (cases "tryBlock en uid w") simp
  then show ?thesis
    by (simp add: runAllAnalysesForUser_def tryCatch_def console_error_def)
qed

lemma run_on_success:
  assumes "tryBlock en uid w = (Inr (), w')"
  shows "runAllAnalysesForUser en uid w = (Inr (), w')"
  using assms by (simp add: runAllAnalysesForUser_def tryCatch_def)

lemma applySet_insightsUpdate:
  "applySet (insightsUpdate t i p h) d =
     d(''aiInsights.topPerformingTags'' \<mapsto> BStrings t,
       ''aiInsights.improvementAreaTags'' \<mapsto> BStrings i,
       ''aiInsights.peakProductivityTime'' \<mapsto> BString p,
       ''aiInsights.habitAnalysis'' \<mapsto> BString h)"
  by (simp add: insightsUpdate_def)

section \<open>Claims about the orchestrator\<close>

text \<open>
  C3: for every user identifier and every behaviour of the collaborators,
  \<open>runAllAnalysesForUser\<close> returns normally; whenever a step of the \<open>try\<close> block throws
  (the aggregation, the query, the text generation or the profile write), the error is
  logged with the user identifier in the message and nothing is thrown to the caller.
\<close>

theorem orchestrator_swallows_failures:
  "fst (runAllAnalysesForUser en uid w) = Inr ()
   \<and> (\<forall>e. fst (tryBlock en uid w) = Inl e \<longrightarrow>
         runAllAnalysesForUser en uid w
           = (Inr (), w\<lparr>console := console w @
                [LogError (''Error running GEN AI analysis for user '' @ uid @ '':'') e]\<rparr>))
   \<and> (\<forall>e. aggregateFault en = Some e \<longrightarrow> fst (tryBlock en uid w) = Inl e)
   \<and> (\<forall>e. aggregateFault en = None \<and> findFault en = Some e \<longrightarrow> fst (tryBlock en uid w) = Inl e)
   \<and> (\<forall>e tp pk. fst (analyzeTagPerformance en uid w) = Inr tp \<and> fst (analyzePeakTime en uid w) = Inr pk
         \<and> generateContent en (prompt (topPerformingTags tp) (improvementAreaTags tp) pk) = Inl e
         \<longrightarrow> fst (tryBlock en uid w) = Inl e)
   \<and> (\<forall>e tp pk h. fst (analyzeTagPerformance en uid w) = Inr tp \<and> fst (analyzePeakTime en uid w) = Inr pk
         \<and> generateContent en (prompt (topPerformingTags tp) (improvementAreaTags tp) pk) = Inr h
         \<and> updateFault en = Some e
         \<longrightarrow> fst (tryBlock en uid w) = Inl e)"
proof (intro conjI allI impI)
  show "fst (runAllAnalysesForUser en uid w) = Inr ()" by (rule run_result)
next
  fix e assume "fst (tryBlock en uid w) = Inl e"
  from run_on_failure[OF this]
  show "runAllAnalysesForUser en uid w
           = (Inr (), w\<lparr>console := console w @
                [LogError (''Error running GEN AI analysis for user '' @ uid @ '':'') e]\<rparr>)"
    by (simp add: errorMessage_def)
next
  fix e assume "aggregateFault en = Some e"
  then have "fst (analyzeTagPerformance en uid w) = Inl e"
    by (simp add: analyzeTagPerformance_def bindIO_def Session_aggregate_def)
  then show "fst (tryBlock en uid w) = Inl e" by (simp add: tryBlock_tags_fail)
next
  fix e assume a: "aggregateFault en = None \<and> findFault en = Some e"
  then obtain tp where "fst (analyzeTagPerformance en uid w) = Inr tp"
    by (simp add: analyzeTagPerformance_def bindIO_def Session_aggregate_def returnIO_def)
  moreover from a have "fst (analyzePeakTime en uid w) = Inl e"
    by (simp add: analyzePeakTime_def bindIO_def Session_find_def)
  ultimately show "fst (tryBlock en uid w) = Inl e" by (simp add: tryBlock_peak_fail)
next
  fix e tp pk
  assume "fst (analyzeTagPerformance en uid w) = Inr tp \<and> fst (analyzePeakTime en uid w) = Inr pk
         \<and> generateContent en (prompt (topPerformingTags tp) (improvementAreaTags tp) pk) = Inl e"
  then show "fst (tryBlock en uid w) = Inl e" by (simp add: tryBlock_generate_fail)
next
  fix e tp pk h
  assume "fst (analyzeTagPerformance en uid w) = Inr tp \<and> fst (analyzePeakTime en uid w) = Inr pk
         \<and> generateContent en (prompt (topPerformingTags tp) (improvementAreaTags tp) pk) = Inr h
         \<and> updateFault en = Some e"
  then show "fst (tryBlock en uid w) = Inl e" by (simp add: tryBlock_update_fail)
qed

theorem orchestrator_swallows_failures_witness:
  "fst (tryBlock enCollabDown ''u'' wProfile) = Inl CollaboratorError
   \<and> runAllAnalysesForUser enCollabDown ''u'' wProfile
       = (Inr (), wProfile\<lparr>console :=
            [LogError ''Error running GEN AI analysis for user u:'' CollaboratorError]\<rparr>)"
proof -
  have tp: "fst (analyzeTagPerformance enCollabDown ''u'' wProfile)
              = Inr \<lparr>topPerformingTags = [''coding''], improvementAreaTags = [''coding'']\<rparr>"
    by code_simp
  have pk: "fst (analyzePeakTime enCollabDown ''u'' wProfile) = Inr ''Morning (6am-12pm)''"
    by code_simp
  have gen: "generateContent enCollabDown
               (prompt (topPerformingTags \<lparr>topPerformingTags = [''coding''], improvementAreaTags = [''coding'']\<rparr>)
                  (improvementAreaTags \<lparr>topPerformingTags = [''coding''], improvementAreaTags = [''coding'']\<rparr>)
                  ''Morning (6am-12pm)'') = Inl CollaboratorError"
    by (simp add: enCollabDown_def en0_def)
  have con: "console wProfile = []" by (simp add: wProfile_def wScenario_def)
  note all = orchestrator_swallows_failures[of enCollabDown "''u''" wProfile]
  from all have caught: "\<forall>e. fst (tryBlock enCollabDown ''u'' wProfile) = Inl e \<longrightarrow>
         runAllAnalysesForUser enCollabDown ''u'' wProfile
           = (Inr (), wProfile\<lparr>console := console wProfile @
                [LogError (''Error running GEN AI analysis for user '' @ ''u'' @ '':'') e]\<rparr>)"
    by (rule conjunct1[OF conjunct2])
  from all have "\<forall>e tp pk. fst (analyzeTagPerformance enCollabDown ''u'' wProfile) = Inr tp
         \<and> fst (analyzePeakTime enCollabDown ''u'' wProfile) = Inr pk
         \<and> generateContent enCollabDown (prompt (topPerformingTags tp) (improvementAreaTags tp) pk) = Inl e
         \<longrightarrow> fst (tryBlock enCollabDown ''u'' wProfile) = Inl e"
    by (rule conjunct1[OF conjunct2[OF conjunct2[OF conjunct2[OF conjunct2]]]])
  then have failed: "fst (tryBlock enCollabDown ''u'' wProfile) = Inl CollaboratorError"
    using tp pk gen by blast
  from caught failed have "runAllAnalysesForUser enCollabDown ''u'' wProfile
           = (Inr (), wProfile\<lparr>console := console wProfile @
                [LogError (''Error running GEN AI analysis for user '' @ ''u'' @ '':'') CollaboratorError]\<rparr>)"
    by blast
  with failed con show ?thesis by simp
qed

text \<open>
  C4: if a step before the profile write fails (the tag analysis, the peak-time analysis
  or the text generation), the stored profiles after \<open>runAllAnalysesForUser\<close> are the
  ones before it; only the console has the error entry.
\<close>

theorem failure_before_write_keeps_profile:
  assumes "fst (analyzeTagPerformance en uid w) = Inl e
         \<or> (\<exists>tp. fst (analyzeTagPerformance en uid w) = Inr tp
               \<and> (fst (analyzePeakTime en uid w) = Inl e
                  \<or> (\<exists>pk. fst (analyzePeakTime en uid w) = Inr pk
                        \<and> generateContent en
                              (prompt (topPerformingTags tp) (improvementAreaTags tp) pk) = Inl e)))"
  shows "users (snd (runAllAnalysesForUser en uid w)) = users w
       \<and> runAllAnalysesForUser en uid w
           = (Inr (), w\<lparr>console := console w @ [LogError (errorMessage uid) e]\<rparr>)"
proof -
  from assms have "tryBlock en uid w = (Inl e, w)"
    by (auto simp: tryBlock_tags_fail tryBlock_peak_fail tryBlock_generate_fail)
  then have "fst (tryBlock en uid w) = Inl e" by simp
  from run_on_failure[OF this] show ?thesis by simp
qed

theorem failure_before_write_keeps_profile_witness:
  "users (snd (runAllAnalysesForUser enCollabDown ''u'' wProfile)) ''u'' = Some priorDoc
   \<and> fst (runAllAnalysesForUser enCollabDown ''u'' wProfile) = Inr ()"
proof -
  have tp: "fst (analyzeTagPerformance enCollabDown ''u'' wProfile)
              = Inr \<lparr>topPerformingTags = [''coding''], improvementAreaTags = [''coding'']\<rparr>"
    by code_simp
  have pk: "fst (analyzePeakTime enCollabDown ''u'' wProfile) = Inr ''Morning (6am-12pm)''"
    by code_simp
  have gen: "generateContent enCollabDown
               (prompt (topPerformingTags \<lparr>topPerformingTags = [''coding''], improvementAreaTags = [''coding'']\<rparr>)
                  (improvementAreaTags \<lparr>topPerformingTags = [''coding''], improvementAreaTags = [''coding'']\<rparr>)
                  ''Morning (6am-12pm)'') = Inl CollaboratorError"
    by (simp add: enCollabDown_def en0_def)
  have "fst (analyzeTagPerformance enCollabDown ''u'' wProfile) = Inl CollaboratorError
         \<or> (\<exists>tp. fst (analyzeTagPerformance enCollabDown ''u'' wProfile) = Inr tp
               \<and> (fst (analyzePeakTime enCollabDown ''u'' wProfile) = Inl CollaboratorError
                  \<or> (\<exists>pk. fst (analyzePeakTime enCollabDown ''u'' wProfile) = Inr pk
                        \<and> generateContent enCollabDown
                              (prompt (topPerformingTags tp) (improvementAreaTags tp) pk) = Inl CollaboratorError)))"
    using tp pk gen by blast
  from failure_before_write_keeps_profile[OF this]
  show ?thesis by (simp add: wProfile_def)
qed

text \<open>
  C9: on a successful run for an existing user, the write sets exactly the four paths
  \<open>aiInsights.topPerformingTags\<close>, \<open>aiInsights.improvementAreaTags\<close>,
  \<open>aiInsights.peakProductivityTime\<close> and \<open>aiInsights.habitAnalysis\<close>; every other path
  of the document keeps its value, the sessions are untouched, and the values written do
  not depend on what the profiles held.
\<close>

theorem profile_write_sets_four_fields:
  assumes "fst (analyzeTagPerformance en uid w) = Inr tp"
    and "fst (analyzePeakTime en uid w) = Inr pk"
    and "generateContent en (prompt (topPerformingTags tp) (improvementAreaTags tp) pk) = Inr h"
    and "updateFault en = None"
    and "users w uid = Some d"
  shows "\<exists>d'. users (snd (runAllAnalysesForUser en uid w)) = (users w)(uid \<mapsto> d')
           \<and> d' = applySet (insightsUpdate (topPerformingTags tp) (improvementAreaTags tp) pk h) d
           \<and> map fst (insightsUpdate (topPerformingTags tp) (improvementAreaTags tp) pk h) = insightPaths
           \<and> d' ''aiInsights.topPerformingTags'' = Some (BStrings (topPerformingTags tp))
           \<and> d' ''aiInsights.improvementAreaTags'' = Some (BStrings (improvementAreaTags tp))
           \<and> d' ''aiInsights.peakProductivityTime'' = Some (BString pk)
           \<and> d' ''aiInsights.habitAnalysis'' = Some (BString h)
           \<and> (\<forall>p. p \<notin> set insightPaths \<longrightarrow> d' p = d p)
           \<and> sessions (snd (runAllAnalysesForUser en uid w)) = sessions w
           \<and> (\<forall>us d2. us uid = Some d2 \<longrightarrow>
                 users (snd (runAllAnalysesForUser en uid (w\<lparr>users := us\<rparr>)))
                   = us(uid \<mapsto> applySet (insightsUpdate (topPerformingTags tp)
                                           (improvementAreaTags tp) pk h) d2))"
proof -
  let ?upd = "insightsUpdate (topPerformingTags tp) (improvementAreaTags tp) pk h"
  have run: "runAllAnalysesForUser en uid w
      = (Inr (), w\<lparr>users := (users w)(uid \<mapsto> applySet ?upd d),
                      console := console w @ [Log (''Successfully ran GEN AI analysis for user '' @ uid)]\<rparr>)"
    using tryBlock_success[OF assms(1-4)] assms(5) by (simp add: run_on_success)
  have other: "users (snd (runAllAnalysesForUser en uid (w\<lparr>users := us\<rparr>)))
                   = us(uid \<mapsto> applySet ?upd d2)" if "us uid = Some d2" for us d2
  proof -
    have a: "fst (analyzeTagPerformance en uid (w\<lparr>users := us\<rparr>)) = Inr tp"
      using assms(1) by (simp add: analyzeTagPerformance_users)
    have b: "fst (analyzePeakTime en uid (w\<lparr>users := us\<rparr>)) = Inr pk"
      using assms(2) by (simp add: analyzePeakTime_users)
    from tryBlock_success[OF a b assms(3,4)] that show ?thesis
      by (simp add: run_on_success)
  qed
  have frame: "\<forall>p. p \<notin> set insightPaths \<longrightarrow> applySet ?upd d p = d p"
    by (simp add: applySet_insightsUpdate insightPaths_def)
  have paths: "map fst ?upd = insightPaths"
    by (simp add: insightsUpdate_def insightPaths_def)
  show ?thesis
    using run other frame paths by (simp add: applySet_insightsUpdate)
qed

theorem profile_write_sets_four_fields_witness:
  "users (snd (runAllAnalysesForUser en0 ''u'' wProfile)) ''u''
     = Some [''name'' \<mapsto> BString ''Ada'',
             ''aiInsights.topPerformingTags'' \<mapsto> BStrings [''coding''],
             ''aiInsights.improvementAreaTags'' \<mapsto> BStrings [''coding''],
             ''aiInsights.peakProductivityTime'' \<mapsto> BString ''Morning (6am-12pm)'',
             ''aiInsights.habitAnalysis'' \<mapsto> BString ''Keep it up.'']"
proof -
  have tp: "fst (analyzeTagPerformance en0 ''u'' wProfile)
              = Inr \<lparr>topPerformingTags = [''coding''], improvementAreaTags = [''coding'']\<rparr>"
    by code_simp
  have pk: "fst (analyzePeakTime en0 ''u'' wProfile) = Inr ''Morning (6am-12pm)''"
    by code_simp
  have gen: "generateContent en0
               (prompt (topPerformingTags \<lparr>topPerformingTags = [''coding''], improvementAreaTags = [''coding'']\<rparr>)
                  (improvementAreaTags \<lparr>topPerformingTags = [''coding''], improvementAreaTags = [''coding'']\<rparr>)
                  ''Morning (6am-12pm)'') = Inr ''Keep it up.''"
    by (simp add: en0_def)
  have upd: "updateFault en0 = None" by (simp add: en0_def)
  have usr: "users wProfile ''u'' = Some priorDoc" by (simp add: wProfile_def)
  from profile_write_sets_four_fields[OF tp pk gen upd usr]
  have "users (snd (runAllAnalysesForUser en0 ''u'' wProfile))
          = (users wProfile)(''u'' \<mapsto> applySet (insightsUpdate [''coding''] [''coding'']
                 ''Morning (6am-12pm)'' ''Keep it up.'') priorDoc)"
    by auto
  then show ?thesis
    by (simp add: applySet_insightsUpdate priorDoc_def fun_upd_twist)
qed

section \<open>analyzeTagPerformance: the pipeline\<close>

lemma ratingsOf_append: "ratingsOf t (xs @ ys) = ratingsOf t xs @ ratingsOf t ys"
  by (simp add: ratingsOf_def)

lemma ratingsOf_one_session:
  "ratingsOf t (map (\<lambda>t'. (t', r)) ts) = replicate (count_list ts t) r"
  by (induction ts) (auto simp: ratingsOf_def)

lemma unwindTags_Cons:
  "unwindTags (s # ss) =
     (case rating s of None \<Rightarrow> [] | Some r \<Rightarrow> map (\<lambda>t. (t, r)) (tags s)) @ unwindTags ss"
  by (simp add: unwindTags_def)

lemma ratingsOf_length:
  "length (ratingsOf t (unwindTags (matchEligible uid ss))) = sampleCount uid ss t"
proof (induction ss)
  case Nil
  show ?case by (simp add: matchEligible_def unwindTags_def ratingsOf_def sampleCount_def)
next
  case (Cons s ss)
  show ?case
  proof (cases "eligible uid s")
    case True
    then obtain r where r: "rating s = Some r" by (auto simp: eligible_def)
    have "matchEligible uid (s # ss) = s # matchEligible uid ss"
      using True by (simp add: matchEligible_def)
    then show ?thesis
      using Cons True
      by (simp add: unwindTags_Cons r ratingsOf_append ratingsOf_one_session sampleCount_def)
  next
    case False
    then show ?thesis using Cons by (simp add: matchEligible_def sampleCount_def)
  qed
qed

lemma ratingsOf_sum:
  "sum_list (ratingsOf t (unwindTags (matchEligible uid ss))) = tagTotal uid ss t"
proof (induction ss)
  case Nil
  show ?case by (simp add: matchEligible_def unwindTags_def ratingsOf_def tagTotal_def)
next
  case (Cons s ss)
  show ?case
  proof (cases "eligible uid s")
    case True
    then obtain r where r: "rating s = Some r" by (auto simp: eligible_def)
    have "matchEligible uid (s # ss) = s # matchEligible uid ss"
      using True by (simp add: matchEligible_def)
    then show ?thesis
      using Cons True
      by (simp add: unwindTags_Cons r ratingsOf_append ratingsOf_one_session tagTotal_def
            ratingOr0_def sum_list_replicate)
  next
    case False
    then show ?thesis using Cons by (simp add: matchEligible_def tagTotal_def)
  qed
qed

lemma groupOf_fields:
  "groupOf (unwindTags (matchEligible uid ss)) t
     = \<lparr>id_t = t, avgRating = tagMean uid ss t, count_t = sampleCount uid ss t\<rparr>"
  by (simp add: groupOf_def ratingsOf_length ratingsOf_sum tagMean_def)

lemma unwindTags_tags:
  "set (map fst (unwindTags (matchEligible uid ss))) = set (concat (map tags (filter (eligible uid) ss)))"
proof (induction ss)
  case Nil
  show ?case by (simp add: matchEligible_def unwindTags_def)
next
  case (Cons s ss)
  show ?case
  proof (cases "eligible uid s")
    case True
    then obtain r where r: "rating s = Some r" by (auto simp: eligible_def)
    have m: "matchEligible uid (s # ss) = s # matchEligible uid ss"
      using True by (simp add: matchEligible_def)
    have "fst ` set (map (\<lambda>t. (t, r)) (tags s)) = set (tags s)" by force
    then show ?thesis
      using Cons True by (simp add: m unwindTags_Cons r image_Un)
  next
    case False
    then show ?thesis using Cons by (simp add: matchEligible_def)
  qed
qed

lemma sampleCount_pos_iff:
  "sampleCount uid ss t > 0 \<longleftrightarrow> t \<in> set (concat (map tags (filter (eligible uid) ss)))"
  by (induction ss) (auto simp: sampleCount_def count_list_0_iff)

lemma qualifyingTags_set: "set (qualifyingTags uid ss) = {t. sampleCount uid ss t > 2}"
proof -
  have "sampleCount uid ss t > 2 \<Longrightarrow> t \<in> set (concat (map tags (filter (eligible uid) ss)))" for t
    using sampleCount_pos_iff[of uid ss t] by simp
  then show ?thesis by (auto simp: qualifyingTags_def)
qed

lemma slice_first3: "slice 0 (Some 3) xs = take 3 xs"
  by (simp add: slice_def relIndex_def Let_def min_def)

lemma slice_last3: "slice (- 3) None xs = drop (length xs - 3) xs"
proof -
  have "nat (max (int (length xs) - 3) 0) = length xs - 3" by simp
  then show ?thesis by (simp add: slice_def relIndex_def Let_def)
qed

lemma analyzeTagPerformance_returns:
  assumes "aggregateFault en = None"
  shows "analyzeTagPerformance en uid w =
           (Inr \<lparr>topPerformingTags = map id_t (take 3 (pipeline (groupOrder en) uid (sessions w))),
                 improvementAreaTags = rev (map id_t (drop (length (pipeline (groupOrder en) uid (sessions w)) - 3)
                                                   (pipeline (groupOrder en) uid (sessions w))))\<rparr>, w)"
  using assms
  by (simp add: analyzeTagPerformance_def bindIO_def Session_aggregate_def returnIO_def
        slice_first3 slice_last3)

lemma groups_mset:
  "mset (map (groupOf (unwindTags (matchEligible uid ss)))
            (remdups (map fst (unwindTags (matchEligible uid ss)))))
     = mset (map (statOf uid ss) (remdups (concat (map tags (filter (eligible uid) ss)))))"
proof -
  have "mset (remdups (map fst (unwindTags (matchEligible uid ss))))
          = mset (remdups (concat (map tags (filter (eligible uid) ss))))"
    using unwindTags_tags[of uid ss] by (simp only: set_eq_iff_mset_remdups_eq)
  then have "image_mset (statOf uid ss) (mset (remdups (map fst (unwindTags (matchEligible uid ss)))))
          = image_mset (statOf uid ss) (mset (remdups (concat (map tags (filter (eligible uid) ss)))))"
    by simp
  moreover have "groupOf (unwindTags (matchEligible uid ss)) = statOf uid ss"
    by (rule ext) (simp add: groupOf_fields statOf_def)
  ultimately show ?thesis by simp
qed

lemma pipeline_mset:
  assumes "permutes order"
  shows "mset (pipeline order uid ss) = mset (map (statOf uid ss) (qualifyingTags uid ss))"
proof -
  let ?gs = "map (groupOf (unwindTags (matchEligible uid ss)))
               (remdups (map fst (unwindTags (matchEligible uid ss))))"
  have "mset (pipeline order uid ss) = filter_mset (\<lambda>g. count_t g > 2) (mset (order ?gs))"
    by (simp add: pipeline_def matchCount_def sortByAvgDesc_def groupByTag_def)
  also have "\<dots> = filter_mset (\<lambda>g. count_t g > 2) (mset ?gs)"
    using assms by (simp add: permutes_def)
  also have "\<dots> = filter_mset (\<lambda>g. count_t g > 2)
                     (mset (map (statOf uid ss) (remdups (concat (map tags (filter (eligible uid) ss))))))"
    by (simp only: groups_mset)
  also have "\<dots> = mset (filter (\<lambda>g. count_t g > 2)
                     (map (statOf uid ss) (remdups (concat (map tags (filter (eligible uid) ss))))))"
    by (simp only: mset_filter)
  also have "\<dots> = mset (map (statOf uid ss) (qualifyingTags uid ss))"
    by (simp add: qualifyingTags_def filter_map comp_def statOf_def)
  finally show ?thesis .
qed

lemma pipeline_set:
  assumes "permutes order"
  shows "set (pipeline order uid ss) = statOf uid ss ` {t. sampleCount uid ss t > 2}"
proof -
  have "set (pipeline order uid ss) = set (map (statOf uid ss) (qualifyingTags uid ss))"
    using pipeline_mset[OF assms] by (rule mset_eq_setD)
  then show ?thesis by (simp add: qualifyingTags_set)
qed

lemma pipeline_ids_mset:
  assumes "permutes order"
  shows "mset (map id_t (pipeline order uid ss)) = mset (qualifyingTags uid ss)"
proof -
  have "mset (map id_t (pipeline order uid ss))
          = image_mset id_t (mset (map (statOf uid ss) (qualifyingTags uid ss)))"
    using pipeline_mset[OF assms] by (metis mset_map)
  also have "\<dots> = mset (qualifyingTags uid ss)"
    by (simp add: image_mset.compositionality comp_def statOf_def)
  finally show ?thesis .
qed

lemma qualifyingTags_distinct: "distinct (qualifyingTags uid ss)"
  by (simp add: qualifyingTags_def)

lemma pipeline_ids_distinct:
  assumes "permutes order"
  shows "distinct (map id_t (pipeline order uid ss))"
  using pipeline_ids_mset[OF assms] qualifyingTags_distinct
  by (metis mset_eq_imp_distinct_iff)

lemma pipeline_sorted: "sorted (map (\<lambda>g. - avgRating g) (pipeline order uid ss))"
  by (simp add: pipeline_def matchCount_def sortByAvgDesc_def sorted_filter)

lemma pipeline_descending:
  "sorted_wrt (\<lambda>a b. avgRating a \<ge> avgRating b) (pipeline order uid ss)"
  using pipeline_sorted[of order uid ss] by (simp add: sorted_map sorted_wrt_map)

lemma permutes_en0: "permutes (groupOrder en0)"
  by (simp add: permutes_def en0_def)


lemma pipeline_means:
  assumes "permutes order"
  shows "\<forall>g \<in> set (pipeline order uid ss). avgRating g = tagMean uid ss (id_t g)"
  by (auto simp: pipeline_set[OF assms] statOf_def)

lemma descending_hd_last:
  assumes "sorted_wrt (\<lambda>a b. avgRating a \<ge> avgRating b) xs" and "xs \<noteq> []"
  shows "(\<forall>g \<in> set xs. avgRating g \<le> avgRating (hd xs))
       \<and> (\<forall>g \<in> set xs. avgRating (last xs) \<le> avgRating g)"
proof
  from assms obtain y ys where xs: "xs = y # ys" by (cases xs) auto
  with assms(1) show "\<forall>g \<in> set xs. avgRating g \<le> avgRating (hd xs)" by auto
next
  from assms(2) obtain zs z where xs: "xs = zs @ [z]" by (cases xs rule: rev_cases) auto
  with assms(1) show "\<forall>g \<in> set xs. avgRating (last xs) \<le> avgRating g"
    by (auto simp: sorted_wrt_append)
qed




section \<open>Claims about the tag ranking\<close>

text \<open>
  C5: whatever the eligible sessions, a tag with a sample count of 2 or less is in neither
  \<open>topPerformingTags\<close> nor \<open>improvementAreaTags\<close>; every tag returned has a count
  greater than 2.
\<close>

theorem rare_tags_never_ranked:
  assumes "aggregateFault en = None"
    and "permutes (groupOrder en)"
  shows "\<exists>r. fst (analyzeTagPerformance en uid w) = Inr r
           \<and> (\<forall>t. sampleCount uid (sessions w) t \<le> 2 \<longrightarrow>
                  t \<notin> set (topPerformingTags r) \<and> t \<notin> set (improvementAreaTags r))
           \<and> (\<forall>t \<in> set (topPerformingTags r) \<union> set (improvementAreaTags r).
                  sampleCount uid (sessions w) t > 2)"
proof -
  let ?perf = "pipeline (groupOrder en) uid (sessions w)"
  let ?r = "\<lparr>topPerformingTags = map id_t (take 3 ?perf),
             improvementAreaTags = rev (map id_t (drop (length ?perf - 3) ?perf))\<rparr>"
  have res: "fst (analyzeTagPerformance en uid w) = Inr ?r"
    by (simp add: analyzeTagPerformance_returns[OF assms(1)])
  have ids: "id_t ` set ?perf = {t. sampleCount uid (sessions w) t > 2}"
    by (simp add: pipeline_set[OF assms(2)] image_image statOf_def)
  have "set (topPerformingTags ?r) \<subseteq> id_t ` set ?perf"
    using set_take_subset[of 3 ?perf] by auto
  moreover have "set (improvementAreaTags ?r) \<subseteq> id_t ` set ?perf"
    using set_drop_subset[of "length ?perf - 3" ?perf] by auto
  ultimately have "set (topPerformingTags ?r) \<union> set (improvementAreaTags ?r)
                     \<subseteq> {t. sampleCount uid (sessions w) t > 2}"
    using ids by blast
  then have "(\<forall>t. sampleCount uid (sessions w) t \<le> 2 \<longrightarrow>
                  t \<notin> set (topPerformingTags ?r) \<and> t \<notin> set (improvementAreaTags ?r))
           \<and> (\<forall>t \<in> set (topPerformingTags ?r) \<union> set (improvementAreaTags ?r).
                  sampleCount uid (sessions w) t > 2)"
    by (auto simp: not_le[symmetric] simp del: not_le)
  with res show ?thesis by blast
qed

theorem rare_tags_never_ranked_witness:
  "sampleCount ''u'' (sessions wTwoTags) ''reading'' = 1
   \<and> (\<exists>r. fst (analyzeTagPerformance en0 ''u'' wTwoTags) = Inr r
          \<and> ''reading'' \<notin> set (topPerformingTags r) \<and> ''reading'' \<notin> set (improvementAreaTags r))"
proof -
  have a: "aggregateFault en0 = None" by (simp add: en0_def)
  have c: "sampleCount ''u'' (sessions wTwoTags) ''reading'' = 1" by code_simp
  from rare_tags_never_ranked[OF a permutes_en0, of "''u''" wTwoTags] c
  show ?thesis by fastforce
qed

text \<open>
  C6: the pipeline's output is the list of the qualifying tags, each once, with its mean,
  in descending order of mean. \<open>topPerformingTags\<close> is the first \<open>min 3 n\<close> names of
  it and \<open>improvementAreaTags\<close> the last \<open>min 3 n\<close> names reversed, so the first begins
  with a tag of highest mean and the second with a tag of lowest mean; both are empty
  when no tag qualifies.
\<close>

theorem top_and_improvement_lists:
  assumes "aggregateFault en = None"
    and "permutes (groupOrder en)"
  shows "sorted_wrt (\<lambda>a b. avgRating a \<ge> avgRating b) (pipeline (groupOrder en) uid (sessions w))
       \<and> distinct (map id_t (pipeline (groupOrder en) uid (sessions w)))
       \<and> set (map id_t (pipeline (groupOrder en) uid (sessions w)))
           = {t. sampleCount uid (sessions w) t > 2}
       \<and> (\<forall>g \<in> set (pipeline (groupOrder en) uid (sessions w)).
             avgRating g = tagMean uid (sessions w) (id_t g))
       \<and> fst (analyzeTagPerformance en uid w)
           = Inr \<lparr>topPerformingTags =
                    take (min 3 (length (pipeline (groupOrder en) uid (sessions w))))
                      (map id_t (pipeline (groupOrder en) uid (sessions w))),
                  improvementAreaTags =
                    rev (drop (length (pipeline (groupOrder en) uid (sessions w))
                                 - min 3 (length (pipeline (groupOrder en) uid (sessions w))))
                           (map id_t (pipeline (groupOrder en) uid (sessions w))))\<rparr>
       \<and> (pipeline (groupOrder en) uid (sessions w) = [] \<longrightarrow>
             fst (analyzeTagPerformance en uid w)
               = Inr \<lparr>topPerformingTags = [], improvementAreaTags = []\<rparr>)
       \<and> (pipeline (groupOrder en) uid (sessions w) \<noteq> [] \<longrightarrow>
             (\<exists>r. fst (analyzeTagPerformance en uid w) = Inr r
                \<and> hd (topPerformingTags r) = id_t (hd (pipeline (groupOrder en) uid (sessions w)))
                \<and> hd (improvementAreaTags r) = id_t (last (pipeline (groupOrder en) uid (sessions w))))
             \<and> (\<forall>g \<in> set (pipeline (groupOrder en) uid (sessions w)).
                   avgRating g \<le> avgRating (hd (pipeline (groupOrder en) uid (sessions w))))
             \<and> (\<forall>g \<in> set (pipeline (groupOrder en) uid (sessions w)).
                   avgRating (last (pipeline (groupOrder en) uid (sessions w))) \<le> avgRating g))"
proof -
  define perf where "perf = pipeline (groupOrder en) uid (sessions w)"
  have res: "fst (analyzeTagPerformance en uid w)
      = Inr \<lparr>topPerformingTags = map id_t (take 3 perf),
             improvementAreaTags = rev (map id_t (drop (length perf - 3) perf))\<rparr>"
    by (simp add: analyzeTagPerformance_returns[OF assms(1)] perf_def)
  have t: "map id_t (take 3 perf) = take (min 3 (length perf)) (map id_t perf)"
    by (simp add: take_map min_def)
  have d: "map id_t (drop (length perf - 3) perf)
             = drop (length perf - min 3 (length perf)) (map id_t perf)"
    by (simp add: drop_map min_def)
  have c1: "sorted_wrt (\<lambda>a b. avgRating a \<ge> avgRating b) perf"
    unfolding perf_def by (rule pipeline_descending)
  have c2: "distinct (map id_t perf)"
    unfolding perf_def by (rule pipeline_ids_distinct[OF assms(2)])
  have c3: "set (map id_t perf) = {t. sampleCount uid (sessions w) t > 2}"
    unfolding perf_def by (simp add: pipeline_set[OF assms(2)] image_image statOf_def)
  have c4: "\<forall>g \<in> set perf. avgRating g = tagMean uid (sessions w) (id_t g)"
    unfolding perf_def by (rule pipeline_means[OF assms(2)])
  have c5: "fst (analyzeTagPerformance en uid w)
      = Inr \<lparr>topPerformingTags = take (min 3 (length perf)) (map id_t perf),
             improvementAreaTags = rev (drop (length perf - min 3 (length perf)) (map id_t perf))\<rparr>"
    using res by (simp only: t d)
  have c6: "perf = [] \<longrightarrow> fst (analyzeTagPerformance en uid w)
               = Inr \<lparr>topPerformingTags = [], improvementAreaTags = []\<rparr>"
    using res by simp
  have c7: "perf \<noteq> [] \<longrightarrow>
             (\<exists>r. fst (analyzeTagPerformance en uid w) = Inr r
                \<and> hd (topPerformingTags r) = id_t (hd perf)
                \<and> hd (improvementAreaTags r) = id_t (last perf))
             \<and> (\<forall>g \<in> set perf. avgRating g \<le> avgRating (hd perf))
             \<and> (\<forall>g \<in> set perf. avgRating (last perf) \<le> avgRating g)"
  proof
    assume ne: "perf \<noteq> []"
    have h1: "hd (map id_t (take 3 perf)) = id_t (hd perf)"
      using ne by (cases perf) simp_all
    have "length perf > 0" using ne by simp
    then have lt: "length perf - 3 < length perf" by arith
    then have ne2: "drop (length perf - 3) perf \<noteq> []" by simp
    have "hd (rev (map id_t (drop (length perf - 3) perf))) = id_t (last (drop (length perf - 3) perf))"
      using ne2 by (simp add: hd_rev last_map)
    also have "\<dots> = id_t (last perf)" using lt by simp
    finally have h2: "hd (rev (map id_t (drop (length perf - 3) perf))) = id_t (last perf)" .
    from res h1 h2 descending_hd_last[OF c1 ne]
    show "(\<exists>r. fst (analyzeTagPerformance en uid w) = Inr r
                \<and> hd (topPerformingTags r) = id_t (hd perf)
                \<and> hd (improvementAreaTags r) = id_t (last perf))
             \<and> (\<forall>g \<in> set perf. avgRating g \<le> avgRating (hd perf))
             \<and> (\<forall>g \<in> set perf. avgRating (last perf) \<le> avgRating g)"
      by simp
  qed
  from c1 c2 c3 c4 c5 c6 c7 show ?thesis unfolding perf_def by blast
qed

theorem top_and_improvement_lists_witness:
  "pipeline (groupOrder en0) ''u'' (sessions wTwoTags)
     = [\<lparr>id_t = ''coding'', avgRating = 14 / 3, count_t = 3\<rparr>,
        \<lparr>id_t = ''meetings'', avgRating = 7 / 3, count_t = 3\<rparr>]
   \<and> fst (analyzeTagPerformance en0 ''u'' wTwoTags)
       = Inr \<lparr>topPerformingTags = [''coding'', ''meetings''],
              improvementAreaTags = [''meetings'', ''coding'']\<rparr>"
proof -
  have a: "aggregateFault en0 = None" by (simp add: en0_def)
  have p: "pipeline (groupOrder en0) ''u'' (sessions wTwoTags)
     = [\<lparr>id_t = ''coding'', avgRating = 14 / 3, count_t = 3\<rparr>,
        \<lparr>id_t = ''meetings'', avgRating = 7 / 3, count_t = 3\<rparr>]"
    by code_simp
  from top_and_improvement_lists[OF a permutes_en0, of "''u''" wTwoTags]
  have "fst (analyzeTagPerformance en0 ''u'' wTwoTags)
           = Inr \<lparr>topPerformingTags =
                    take (min 3 (length (pipeline (groupOrder en0) ''u'' (sessions wTwoTags))))
                      (map id_t (pipeline (groupOrder en0) ''u'' (sessions wTwoTags))),
                  improvementAreaTags =
                    rev (drop (length (pipeline (groupOrder en0) ''u'' (sessions wTwoTags))
                                 - min 3 (length (pipeline (groupOrder en0) ''u'' (sessions wTwoTags))))
                           (map id_t (pipeline (groupOrder en0) ''u'' (sessions wTwoTags))))\<rparr>"
    by blast
  then show ?thesis by (simp add: p)
qed




end
